theory Spec2Isabelle
  imports Main "HOL-Library.Sublist"
begin

section \<open>Data model of app.py\<close>

text \<open>
  A stored chat message is a Python dict with the keys \<open>role\<close> and \<open>content\<close>, and for
  the assistant's replies also \<open>thinking\<close>. The optional key is an option: \<open>None\<close> is
  a dict without the key.
\<close>

record message =
  role :: string
  content :: string
  thinking :: "string option"

text \<open>
  A part of the streamed response is a dict; its entry \<open>message\<close>, when present, is a
  dict from keys to text deltas.
\<close>

type_synonym msg_dict = "string \<rightharpoonup> string"
type_synonym part = "string \<rightharpoonup> msg_dict"

text \<open>
  The exceptions the program can meet: the \<open>TypeError\<close> of a string concatenated with
  \<open>None\<close>, the \<open>KeyError\<close> of a missing dict key, the \<open>FileNotFoundError\<close> of
  \<open>open\<close>, and whatever the Ollama client raises while the stream is read.
\<close>

datatype error =
  TypeError
  | KeyError string
  | FileNotFoundError string
  | ResponseError string

text \<open>
  The stream returned by the client is an iterator: each step either yields a part or
  raises. Nothing after a raise is ever read.
\<close>

datatype stream_item = Yield part | Raise error

type_synonym stream = "stream_item list"

text \<open>What the page shows. Labels are given without their leading emoji.\<close>

datatype element =
  Markdown string
  | Header string string
  | Expander string "element list"
  | ChatMessage string "element list"

record client =
  host :: string
  headers :: "(string \<times> string) list"

record request =
  req_client :: client
  req_model :: string
  req_messages :: "message list"

text \<open>
  The state one run of the script works on: \<open>st.session_state\<close> (its key
  \<open>messages\<close>, absent in a fresh session), the elements rendered so far in this run,
  and the calls made on the Ollama client.
\<close>

record state =
  session_messages :: "message list option"
  page :: "element list"
  sent :: "request list"

text \<open>
  What the outside world gives one run of the script: the process environment after
  \<open>load_dotenv\<close>, the files on disk, the behaviour of the hosted endpoint, and what
  \<open>st.chat_input\<close> returns (\<open>None\<close> when nothing was submitted).
\<close>

record run_input =
  environ :: "string \<rightharpoonup> string"
  files :: "string \<rightharpoonup> string"
  endpoint :: "client \<Rightarrow> string \<Rightarrow> message list \<Rightarrow> stream"
  chat_input :: "string option"

section \<open>The stream classifier\<close>

text \<open>\<open>part.get("message", {})\<close>\<close>

definition get_message :: "part \<Rightarrow> msg_dict" where
  "get_message part = (case part ''message'' of None \<Rightarrow> Map.empty | Some m \<Rightarrow> m)"

text \<open>The body of the loop of \<open>process_thinking_stream\<close>: an \<open>if\<close>/\<open>elif\<close> on the keys.\<close>

fun classify :: "part \<Rightarrow> string \<times> string \<Rightarrow> string \<times> string" where
  "classify part (thinking_content, response_content) =
     (let message = get_message part in
      case message ''thinking'' of
        Some d \<Rightarrow> (thinking_content @ d, response_content)
      | None \<Rightarrow>
          (case message ''content'' of
             Some d \<Rightarrow> (thinking_content, response_content @ d)
           | None \<Rightarrow> (thinking_content, response_content)))"

text \<open>The loop \<open>for part in stream\<close>; an exception raised by the iterator leaves it.\<close>

fun consume :: "stream \<Rightarrow> string \<times> string \<Rightarrow> error + string \<times> string" where
  "consume [] acc = Inr acc"
| "consume (Raise e # rest) acc = Inl e"
| "consume (Yield part # rest) acc = consume rest (classify part acc)"

text \<open>
  \<open>process_thinking_stream\<close>: both accumulators start empty. The status widget it
  opens is only written to, and is left out.
\<close>

definition process_thinking_stream :: "stream \<Rightarrow> error + string \<times> string" where
  "process_thinking_stream stream = consume stream ('''', '''')"

text \<open>
  The classification as the specification words it, for a sequence of parts: the
  deltas of the parts that carry the key, concatenated in order.
\<close>

definition deltas_tagged :: "string \<Rightarrow> part list \<Rightarrow> string" where
  "deltas_tagged k F = concat (List.map_filter (\<lambda>p. get_message p k) F)"

text \<open>The content delta of a part that carries \<open>content\<close> and no \<open>thinking\<close>.\<close>

definition content_only :: "part \<Rightarrow> string option" where
  "content_only p =
     (case get_message p ''thinking'' of
        Some t \<Rightarrow> None
      | None \<Rightarrow> get_message p ''content'')"

definition answer_deltas :: "part list \<Rightarrow> string" where
  "answer_deltas F = concat (List.map_filter content_only F)"

text \<open>A part that carries one of the two keys.\<close>

definition tagged :: "part \<Rightarrow> bool" where
  "tagged p = (get_message p ''thinking'' \<noteq> None \<or> get_message p ''content'' \<noteq> None)"

fun keeps :: "stream_item \<Rightarrow> bool" where
  "keeps (Yield p) = tagged p"
| "keeps (Raise e) = True"

section \<open>Rendering\<close>

text \<open>
  \<open>str.strip\<close> on ASCII text: the ASCII whitespace characters of Python's \<open>str\<close>.
  Python also strips whitespace beyond ASCII (such as U+00A0); text with such characters
  is outside this definition. It decides only whether the expander is shown.
\<close>

definition isspace :: "char \<Rightarrow> bool" where
  "isspace c = (of_char c \<in> {9, 10, 11, 12, 13, 28, 29, 30, 31, 32 :: nat})"

definition strip :: "string \<Rightarrow> string" where
  "strip s = rev (dropWhile isspace (rev (dropWhile isspace s)))"

text \<open>
  \<open>display_assistant_message\<close>: both arguments may be \<open>None\<close> (they come from
  \<open>dict.get\<close>); \<open>None\<close> and the empty string are falsy.
\<close>

definition display_assistant_message :: "string option \<Rightarrow> string option \<Rightarrow> element list" where
  "display_assistant_message content' thinking_content =
     (case thinking_content of
        None \<Rightarrow> []
      | Some t \<Rightarrow> if t \<noteq> [] \<and> strip t \<noteq> [] then [Expander ''Thinking process'' [Markdown t]] else [])
     @ (case content' of
          None \<Rightarrow> []
        | Some c \<Rightarrow> if c \<noteq> [] then [Markdown c] else [])"

definition display_message :: "message \<Rightarrow> element" where
  "display_message m =
     (let role' = (if role m = ''user'' then ''user'' else ''assistant'') in
      ChatMessage role'
        (if role' = ''assistant''
         then display_assistant_message (Some (content m)) (thinking m)
         else [Markdown (content m)]))"

text \<open>\<open>display_chat_history\<close>: the loop over the stored messages.\<close>

fun display_all :: "message list \<Rightarrow> element list" where
  "display_all [] = []"
| "display_all (m # ms) =
     (if role m \<noteq> ''system'' then display_message m # display_all ms else display_all ms)"

definition display_chat_history :: "state \<Rightarrow> error option \<times> state" where
  "display_chat_history s =
     (case session_messages s of
        None \<Rightarrow> (Some (KeyError ''messages''), s)
      | Some ms \<Rightarrow> (None, s\<lparr>page := page s @ display_all ms\<rparr>))"

section \<open>The turn handler\<close>

text \<open>
  The module-level client: \<open>'Bearer ' + os.environ.get('OLLAMA_API_KEY')\<close>. A missing
  key makes the concatenation raise. A present key is taken to be ASCII text, which the
  client accepts as a header value.
\<close>

definition make_client :: "(string \<rightharpoonup> string) \<Rightarrow> error + client" where
  "make_client env =
     (case env ''OLLAMA_API_KEY'' of
        None \<Rightarrow> Inl TypeError
      | Some k \<Rightarrow>
          Inr \<lparr>host = ''https://ollama.com'', headers = [(''Authorization'', ''Bearer '' @ k)]\<rparr>)"

text \<open>
  \<open>get_chat_model\<close>: the closure that calls \<open>client.chat\<close> with the fixed model name,
  in streaming mode, and returns the endpoint's stream. The field \<open>sent\<close> is a log of
  these calls kept beside them; the program has no such list. The closure is cached by
  \<open>st.cache_resource\<close>; the model calls the client of the current run, which is the
  cached one as long as the environment does not change between runs.
\<close>

definition get_chat_model ::
  "(client \<Rightarrow> string \<Rightarrow> message list \<Rightarrow> stream) \<Rightarrow> client \<Rightarrow> message list \<Rightarrow> state \<Rightarrow> stream \<times> state" where
  "get_chat_model ep c messages s =
     (ep c ''minimax-m2:cloud'' messages,
      s\<lparr>sent := sent s @ [\<lparr>req_client = c, req_model = ''minimax-m2:cloud'', req_messages = messages\<rparr>]\<rparr>)"

definition user_message :: "string \<Rightarrow> message" where
  "user_message user_input = \<lparr>role = ''user'', content = user_input, thinking = None\<rparr>"

definition assistant_message :: "string \<Rightarrow> string \<Rightarrow> message" where
  "assistant_message response_content thinking_content =
     \<lparr>role = ''assistant'', content = response_content, thinking = Some thinking_content\<rparr>"

text \<open>
  \<open>handle_user_input\<close>. The walrus test is false on \<open>None\<close> and on the empty string.
  The user's message is appended before the model is called; the assistant's message
  is appended only when the whole stream has been read. An exception leaves the
  function where it is raised: nothing is caught, nothing is undone.
\<close>

definition handle_user_input ::
  "(client \<Rightarrow> string \<Rightarrow> message list \<Rightarrow> stream) \<Rightarrow> client \<Rightarrow> string option \<Rightarrow> state
     \<Rightarrow> error option \<times> state" where
  "handle_user_input ep c inp s =
     (case inp of
        None \<Rightarrow> (None, s)
      | Some user_input \<Rightarrow>
          if user_input = [] then (None, s)
          else
            (case session_messages s of
               None \<Rightarrow> (Some (KeyError ''messages''), s)
             | Some ms \<Rightarrow>
                 let ms1 = ms @ [user_message user_input];
                     s1 = s\<lparr>session_messages := Some ms1,
                            page := page s @ [ChatMessage ''user'' [Markdown user_input]]\<rparr>;
                     (stream, s2) = get_chat_model ep c ms1 s1
                 in
                   (case process_thinking_stream stream of
                      Inl e \<Rightarrow> (Some e, s2\<lparr>page := page s2 @ [ChatMessage ''assistant'' []]\<rparr>)
                    | Inr (thinking_content, response_content) \<Rightarrow>
                        (None,
                         s2\<lparr>session_messages :=
                               Some (ms1 @ [assistant_message response_content thinking_content]),
                            page := page s2 @
                              [ChatMessage ''assistant''
                                 (display_assistant_message (Some response_content)
                                    (Some thinking_content))]\<rparr>))))"

section \<open>One run of the script, and a session\<close>

definition read_file :: "(string \<rightharpoonup> string) \<Rightarrow> string \<Rightarrow> error + string" where
  "read_file fs path = (case fs path of None \<Rightarrow> Inl (FileNotFoundError path) | Some b \<Rightarrow> Inr b)"

text \<open>
  \<open>main\<close>: the two logos are read (the header embeds their base64 encodings; the
  model keeps the files' contents), then the history is shown and the input handled.
\<close>

definition main ::
  "(string \<rightharpoonup> string) \<Rightarrow> (client \<Rightarrow> string \<Rightarrow> message list \<Rightarrow> stream) \<Rightarrow> client
     \<Rightarrow> string option \<Rightarrow> state \<Rightarrow> error option \<times> state" where
  "main fs ep c inp s =
     (case read_file fs ''assets/minimax.png'' of
        Inl e \<Rightarrow> (Some e, s)
      | Inr minimax_logo \<Rightarrow>
          (case read_file fs ''assets/ollama.png'' of
             Inl e \<Rightarrow> (Some e, s)
           | Inr ollama_logo \<Rightarrow>
               let s1 = s\<lparr>page := page s @ [Header ollama_logo minimax_logo]\<rparr> in
               (case display_chat_history s1 of
                  (Some e, s2) \<Rightarrow> (Some e, s2)
                | (None, s2) \<Rightarrow> handle_user_input ep c inp s2)))"

definition system_message :: message where
  "system_message =
     \<lparr>role = ''system'',
      content = ''You are a helpful AI assistant that explains your reasoning before answering.'',
      thinking = None\<rparr>"

text \<open>The block under \<open>__main__\<close>: the store is created when the session has none.\<close>

definition init_session :: "state \<Rightarrow> state" where
  "init_session s =
     (case session_messages s of
        None \<Rightarrow> s\<lparr>session_messages := Some [system_message]\<rparr>
      | Some ms \<Rightarrow> s)"

text \<open>
  One run of the script, top to bottom: the client is built, the store is created
  when the session has none, and \<open>main\<close> runs. The page starts empty on every run.
  \<open>load_dotenv\<close> has already filled the environment the run is given, and
  \<open>st.set_page_config\<close> touches neither the store nor the elements of the page.
\<close>

definition script_run :: "run_input \<Rightarrow> state \<Rightarrow> error option \<times> state" where
  "script_run r s0 =
     (let s = s0\<lparr>page := []\<rparr> in
      case make_client (environ r) of
        Inl e \<Rightarrow> (Some e, s)
      | Inr c \<Rightarrow> main (files r) (endpoint r) c (chat_input r) (init_session s))"

definition fresh :: state where
  "fresh = \<lparr>session_messages = None, page = [], sent = []\<rparr>"

text \<open>The store as a sequence: empty while the session has none.\<close>

definition store :: "state \<Rightarrow> message list" where
  "store s = (case session_messages s of None \<Rightarrow> [] | Some ms \<Rightarrow> ms)"

text \<open>
  A session is a sequence of runs on the same session state; a run that raised is
  followed by the next run all the same.
\<close>

fun run_session :: "run_input list \<Rightarrow> state \<Rightarrow> state" where
  "run_session [] s = s"
| "run_session (r # rs) s = run_session rs (snd (script_run r s))"

text \<open>What \<open>st.chat_input\<close> returns is a submission: neither \<open>None\<close> nor empty.\<close>

definition submitted :: "string option \<Rightarrow> bool" where
  "submitted inp = (case inp of None \<Rightarrow> False | Some u \<Rightarrow> u \<noteq> [])"

text \<open>The number of turns of a sequence of runs: the runs with a submission.\<close>

definition turns :: "run_input list \<Rightarrow> nat" where
  "turns rs = length (filter (\<lambda>r. submitted (chat_input r)) rs)"

text \<open>Every run of the sequence returned without an exception.\<close>

fun all_returned :: "run_input list \<Rightarrow> state \<Rightarrow> bool" where
  "all_returned [] s = True"
| "all_returned (r # rs) s =
     (fst (script_run r s) = None \<and> all_returned rs (snd (script_run r s)))"

text \<open>The thinking field is set on no message but the assistant's.\<close>

definition thinking_on_assistant_only :: "message list \<Rightarrow> bool" where
  "thinking_on_assistant_only ms = list_all (\<lambda>m. role m = ''assistant'' \<or> thinking m = None) ms"

section \<open>Example inputs\<close>

text \<open>A session whose store holds the system message only, as after the first run.\<close>

definition loaded :: state where
  "loaded = \<lparr>session_messages = Some [system_message], page = [], sent = []\<rparr>"

definition a_client :: client where
  "a_client = \<lparr>host = ''https://ollama.com'', headers = [(''Authorization'', ''Bearer secret'')]\<rparr>"

text \<open>An endpoint that thinks and answers, and one whose stream breaks after one part.\<close>

definition replying :: "client \<Rightarrow> string \<Rightarrow> message list \<Rightarrow> stream" where
  "replying c model_name messages =
     [Yield [''message'' \<mapsto> [''thinking'' \<mapsto> ''hm'']],
      Yield [''message'' \<mapsto> [''content'' \<mapsto> ''42'']]]"

definition breaking :: "client \<Rightarrow> string \<Rightarrow> message list \<Rightarrow> stream" where
  "breaking c model_name messages =
     [Yield [''message'' \<mapsto> [''content'' \<mapsto> ''partial'']],
      Raise (ResponseError ''connection reset'')]"

definition with_key :: "string \<rightharpoonup> string" where
  "with_key = [''OLLAMA_API_KEY'' \<mapsto> ''secret'']"

definition logos :: "string \<rightharpoonup> string" where
  "logos = [''assets/minimax.png'' \<mapsto> ''M'', ''assets/ollama.png'' \<mapsto> ''O'']"

definition page_load :: run_input where
  "page_load = \<lparr>environ = with_key, files = logos, endpoint = replying, chat_input = None\<rparr>"

definition good_turn :: run_input where
  "good_turn = \<lparr>environ = with_key, files = logos, endpoint = replying, chat_input = Some ''hi''\<rparr>"

definition broken_turn :: run_input where
  "broken_turn = \<lparr>environ = with_key, files = logos, endpoint = breaking, chat_input = Some ''hi''\<rparr>"

definition keyless_turn :: run_input where
  "keyless_turn = \<lparr>environ = Map.empty, files = logos, endpoint = replying, chat_input = Some ''hi''\<rparr>"

text \<open>
  An endpoint whose answer spells out the roles of the messages it was handed, and a
  session in which one turn has been completed.
\<close>

definition echoing :: "client \<Rightarrow> string \<Rightarrow> message list \<Rightarrow> stream" where
  "echoing c model_name messages =
     [Yield [''message'' \<mapsto> [''content'' \<mapsto> concat (map role messages)]]]"

definition talked :: state where
  "talked =
     \<lparr>session_messages =
        Some [system_message, user_message ''hi'', assistant_message ''42'' ''hm''],
      page = [], sent = []\<rparr>"

section \<open>The classifier: results\<close>

lemma consume_no_raise:
  "consume (map Yield F) acc = Inr (fold classify F acc)"
  by (induction F arbitrary: acc) simp_all

lemma fold_classify:
  "fold classify F (t, r) = (t @ deltas_tagged ''thinking'' F, r @ answer_deltas F)"
proof (induction F arbitrary: t r)
  case Nil
  show ?case by (simp add: deltas_tagged_def answer_deltas_def)
next
  case (Cons p F)
  show ?case
    by (cases "get_message p ''thinking''"; cases "get_message p ''content''")
       (simp_all add: Cons.IH deltas_tagged_def answer_deltas_def content_only_def)
qed

lemma classify_untagged: "\<not> tagged p \<Longrightarrow> classify p acc = acc"
  by (cases acc) (simp add: tagged_def)

lemma consume_filter: "consume (filter keeps xs) acc = consume xs acc"
proof (induction xs arbitrary: acc)
  case Nil
  show ?case by simp
next
  case (Cons x xs)
  show ?case
  proof (cases x)
    case (Yield p)
    then show ?thesis
      by (cases "tagged p") (simp_all add: Cons.IH classify_untagged del: classify.simps)
  next
    case (Raise e)
    then show ?thesis by simp
  qed
qed

lemma consume_raises:
  "consume (map Yield F @ Raise e # rest) acc = Inl e"
  by (induction F arbitrary: acc) simp_all

text \<open>
  C1, as the specification states it, fails on a part that carries both keys: its
  content delta is not part of the answer. The part below is such a part; the pair
  the specification describes would be \<open>(''a'', ''b'')\<close>, the function returns
  \<open>(''a'', '''')\<close>.
\<close>

theorem both_tags_content_lost:
  "process_thinking_stream
     [Yield [''message'' \<mapsto> [''thinking'' \<mapsto> ''a'', ''content'' \<mapsto> ''b'']]]
   \<noteq> Inr (deltas_tagged ''thinking''
            [[''message'' \<mapsto> [''thinking'' \<mapsto> ''a'', ''content'' \<mapsto> ''b'']]],
          deltas_tagged ''content''
            [[''message'' \<mapsto> [''thinking'' \<mapsto> ''a'', ''content'' \<mapsto> ''b'']]])"
  by (simp add: process_thinking_stream_def deltas_tagged_def get_message_def)

text \<open>
  C1 (amended): for every finite sequence of parts, \<open>process_thinking_stream\<close> returns
  the pair whose first component is the concatenation, in order, of the thinking deltas
  of all parts that carry \<open>thinking\<close>, and whose second component is the concatenation,
  in order, of the content deltas of all parts that carry \<open>content\<close> and do not carry
  \<open>thinking\<close>, however the two kinds are interleaved.
\<close>

theorem classifier_concatenates:
  "process_thinking_stream (map Yield F) = Inr (deltas_tagged ''thinking'' F, answer_deltas F)"
  by (simp add: process_thinking_stream_def consume_no_raise fold_classify)

text \<open>The scenario of the specification: two thinking parts, then a content part.\<close>

theorem classifier_scenario:
  "process_thinking_stream
     [Yield [''message'' \<mapsto> [''thinking'' \<mapsto> ''Let me '']],
      Yield [''message'' \<mapsto> [''thinking'' \<mapsto> ''think.'']],
      Yield [''message'' \<mapsto> [''content'' \<mapsto> ''42'']]]
   = Inr (''Let me think.'', ''42'')"
  using classifier_concatenates
    [of "[[''message'' \<mapsto> [''thinking'' \<mapsto> ''Let me '']],
          [''message'' \<mapsto> [''thinking'' \<mapsto> ''think.'']],
          [''message'' \<mapsto> [''content'' \<mapsto> ''42'']]]"]
  by (simp add: deltas_tagged_def answer_deltas_def content_only_def get_message_def)

text \<open>
  C5: a part whose message carries both a thinking delta and a content delta adds the
  thinking delta to the first accumulator and leaves the second as it was; the loop
  goes on with that pair, so the content delta is lost.
\<close>

theorem both_tags_thinking_only:
  assumes "get_message p ''thinking'' = Some t" and "get_message p ''content'' = Some c"
  shows "classify p (tc, rc) = (tc @ t, rc) \<and>
         consume (Yield p # rest) (tc, rc) = consume rest (tc @ t, rc)"
  using assms by simp

theorem both_tags_thinking_only_witness:
  "classify [''message'' \<mapsto> [''thinking'' \<mapsto> ''hm'', ''content'' \<mapsto> ''42'']] (''a'', ''b'')
     = (''ahm'', ''b'') \<and>
   process_thinking_stream
     [Yield [''message'' \<mapsto> [''thinking'' \<mapsto> ''hm'', ''content'' \<mapsto> ''42'']]]
     = Inr (''hm'', '''')"
  using both_tags_thinking_only
    [of "[''message'' \<mapsto> [''thinking'' \<mapsto> ''hm'', ''content'' \<mapsto> ''42'']]"
        "''hm''" "''42''" "''a''" "''b''" "[]"]
    both_tags_thinking_only
    [of "[''message'' \<mapsto> [''thinking'' \<mapsto> ''hm'', ''content'' \<mapsto> ''42'']]"
        "''hm''" "''42''" "[]" "[]" "[]"]
  by (simp add: get_message_def process_thinking_stream_def)

text \<open>
  C6: parts that carry neither key are ignored: the function returns the same on a
  stream and on that stream without its untagged parts.
\<close>

theorem untagged_ignored:
  "process_thinking_stream (filter keeps xs) = process_thinking_stream xs"
  by (simp add: process_thinking_stream_def consume_filter)

theorem untagged_ignored_witness:
  "process_thinking_stream
     [Yield [''message'' \<mapsto> [''thinking'' \<mapsto> ''a'']],
      Yield [''done'' \<mapsto> Map.empty],
      Yield [''message'' \<mapsto> [''role'' \<mapsto> ''assistant'']],
      Yield [''message'' \<mapsto> [''content'' \<mapsto> ''b'']]]
   = process_thinking_stream
     [Yield [''message'' \<mapsto> [''thinking'' \<mapsto> ''a'']],
      Yield [''message'' \<mapsto> [''content'' \<mapsto> ''b'']]]"
  using untagged_ignored
    [of "[Yield [''message'' \<mapsto> [''thinking'' \<mapsto> ''a'']],
          Yield [''done'' \<mapsto> Map.empty],
          Yield [''message'' \<mapsto> [''role'' \<mapsto> ''assistant'']],
          Yield [''message'' \<mapsto> [''content'' \<mapsto> ''b'']]]"]
  by (simp add: tagged_def get_message_def)

text \<open>C7: the empty stream gives two empty strings.\<close>

theorem empty_stream_empty_strings:
  "process_thinking_stream [] = Inr ('''', '''')"
  by (simp add: process_thinking_stream_def)

section \<open>The store: results\<close>

lemma display_all_filter:
  "display_all ms = map display_message (filter (\<lambda>m. role m \<noteq> ''system'') ms)"
  by (induction ms) simp_all

lemma handle_user_input_failed:
  assumes "session_messages s = Some ms" and "u \<noteq> []"
    and "process_thinking_stream (ep c ''minimax-m2:cloud'' (ms @ [user_message u])) = Inl e"
  shows "fst (handle_user_input ep c (Some u) s) = Some e \<and>
    session_messages (snd (handle_user_input ep c (Some u) s)) = Some (ms @ [user_message u])"
  using assms by (simp_all add: handle_user_input_def get_chat_model_def Let_def)

lemma handle_user_input_sent:
  assumes "session_messages s = Some ms" and "u \<noteq> []"
  shows "sent (snd (handle_user_input ep c (Some u) s))
           = sent s @ [\<lparr>req_client = c, req_model = ''minimax-m2:cloud'',
                        req_messages = ms @ [user_message u]\<rparr>]"
  using assms
  by (simp add: handle_user_input_def get_chat_model_def Let_def split: sum.splits prod.splits)

lemma store_page [simp]: "store (s\<lparr>page := p\<rparr>) = store s"
  by (simp add: store_def)

lemma display_chat_history_same_store:
  "display_chat_history s = (r, s') \<Longrightarrow> session_messages s' = session_messages s"
  by (auto simp: display_chat_history_def split: option.splits)

lemma main_result:
  assumes "\<And>e. P (Some e) (session_messages s)"
    and "\<And>s2. session_messages s2 = session_messages s
            \<Longrightarrow> P (fst (handle_user_input ep c inp s2))
                  (session_messages (snd (handle_user_input ep c inp s2)))"
  shows "P (fst (main fs ep c inp s)) (session_messages (snd (main fs ep c inp s)))"
proof (cases "read_file fs ''assets/minimax.png''")
  case (Inl e)
  with assms(1) show ?thesis by (simp add: main_def)
next
  case minimax: (Inr a)
  show ?thesis
  proof (cases "read_file fs ''assets/ollama.png''")
    case (Inl e)
    with minimax assms(1) show ?thesis by (simp add: main_def)
  next
    case ollama: (Inr b)
    obtain r s2 where d: "display_chat_history (s\<lparr>page := page s @ [Header b a]\<rparr>) = (r, s2)"
      by (cases "display_chat_history (s\<lparr>page := page s @ [Header b a]\<rparr>)")
    from display_chat_history_same_store [OF d] have eq: "session_messages s2 = session_messages s"
      by simp
    show ?thesis
    proof (cases r)
      case None
      with minimax ollama d assms(2) [OF eq] show ?thesis
        by (simp add: main_def)
    next
      case (Some e)
      with minimax ollama d eq assms(1) show ?thesis by (simp add: main_def)
    qed
  qed
qed

lemma init_session_store:
  "session_messages (init_session s) = Some (store (init_session s))"
  by (simp add: init_session_def store_def split: option.splits)

lemma script_run_result:
  assumes "\<And>e. P (Some e) (session_messages s)"
    and "\<And>e. P (Some e) (Some (store (init_session s)))"
    and "\<And>c s2. session_messages s2 = Some (store (init_session s))
            \<Longrightarrow> P (fst (handle_user_input (endpoint r) c (chat_input r) s2))
                  (session_messages (snd (handle_user_input (endpoint r) c (chat_input r) s2)))"
  shows "P (fst (script_run r s)) (session_messages (snd (script_run r s)))"
proof (cases "make_client (environ r)")
  case (Inl e)
  with assms(1) show ?thesis by (simp add: script_run_def)
next
  case (Inr c)
  have i: "session_messages (init_session (s\<lparr>page := []\<rparr>)) = Some (store (init_session s))"
    by (simp add: init_session_def store_def split: option.splits)
  have "P (fst (main (files r) (endpoint r) c (chat_input r) (init_session (s\<lparr>page := []\<rparr>))))
          (session_messages (snd (main (files r) (endpoint r) c (chat_input r)
             (init_session (s\<lparr>page := []\<rparr>)))))"
    by (rule main_result) (simp_all add: i assms(2) assms(3))
  with Inr show ?thesis by (simp add: script_run_def)
qed

lemma handle_user_input_prefix:
  "session_messages s = Some ms \<Longrightarrow>
   prefix ms (store (snd (handle_user_input ep c inp s)))"
  by (simp add: handle_user_input_def get_chat_model_def store_def Let_def
        split: option.splits sum.splits prod.splits)

lemma handle_user_input_prefix_any:
  "prefix (store s) (store (snd (handle_user_input ep c inp s)))"
  by (simp add: handle_user_input_def get_chat_model_def store_def Let_def
        split: option.splits sum.splits prod.splits)

lemma store_init_session: "prefix (store s) (store (init_session s))"
  by (simp add: init_session_def store_def split: option.splits)

lemma script_run_prefix:
  "prefix (store s) (store (snd (script_run r s)))"
proof -
  let ?P = "\<lambda>(e :: error option) m. prefix (store s) (case m of None \<Rightarrow> [] | Some ms \<Rightarrow> ms)"
  have "?P (fst (script_run r s)) (session_messages (snd (script_run r s)))"
  proof (rule script_run_result)
    show "\<And>e. ?P (Some e) (session_messages s)" by (simp add: store_def)
    show "\<And>e. ?P (Some e) (Some (store (init_session s)))" by (simp add: store_init_session)
    fix c :: client and s2 :: state
    assume "session_messages s2 = Some (store (init_session s))"
    from handle_user_input_prefix [OF this, of "endpoint r" c "chat_input r"]
    have "prefix (store (init_session s))
            (store (snd (handle_user_input (endpoint r) c (chat_input r) s2)))" .
    with store_init_session [of s]
    have "prefix (store s) (store (snd (handle_user_input (endpoint r) c (chat_input r) s2)))"
      by (rule prefix_order.trans)
    then show "?P (fst (handle_user_input (endpoint r) c (chat_input r) s2))
       (session_messages (snd (handle_user_input (endpoint r) c (chat_input r) s2)))"
      by (simp add: store_def)
  qed
  then show ?thesis by (simp add: store_def)
qed

lemma run_session_prefix:
  "prefix (store s) (store (run_session rs s))"
proof (induction rs arbitrary: s)
  case Nil
  show ?case by simp
next
  case (Cons r rs)
  from script_run_prefix [of s r] Cons.IH [of "snd (script_run r s)"]
  show ?case by (auto intro: prefix_order.trans)
qed

text \<open>
  C9: the store is append-only. Whatever a turn does, completed or failed, the store
  before it is a prefix of the store after it: for the turn handler, for a whole run of
  the script, and for any sequence of runs.
\<close>

theorem store_append_only:
  "prefix (store s) (store (snd (handle_user_input ep c inp s))) \<and>
   prefix (store s) (store (snd (script_run r s))) \<and>
   prefix (store s) (store (run_session rs s))"
  by (simp add: handle_user_input_prefix_any script_run_prefix run_session_prefix)

theorem store_append_only_witness:
  "prefix [system_message] (store (snd (handle_user_input breaking a_client (Some ''hi'') loaded))) \<and>
   store (snd (handle_user_input breaking a_client (Some ''hi'') loaded))
     = [system_message, user_message ''hi''] \<and>
   prefix [system_message] (store (snd (script_run good_turn loaded))) \<and>
   store (snd (script_run good_turn loaded))
     = [system_message, user_message ''hi'', assistant_message ''42'' ''hm''] \<and>
   prefix [system_message] (store (run_session [broken_turn, good_turn] loaded)) \<and>
   length (store (run_session [broken_turn, good_turn] loaded)) = 4"
  using store_append_only [of loaded breaking a_client "Some ''hi''" good_turn "[broken_turn, good_turn]"]
  by (simp add: store_def loaded_def handle_user_input_def get_chat_model_def
        process_thinking_stream_def breaking_def replying_def get_message_def Let_def
        script_run_def good_turn_def broken_turn_def with_key_def logos_def make_client_def
        init_session_def main_def read_file_def display_chat_history_def)

lemmas run_defs =
  store_def loaded_def fresh_def handle_user_input_def get_chat_model_def
  process_thinking_stream_def breaking_def replying_def get_message_def Let_def
  script_run_def good_turn_def broken_turn_def keyless_turn_def page_load_def
  with_key_def logos_def make_client_def
  init_session_def main_def read_file_def display_chat_history_def

text \<open>
  C2, as the specification states it, fails: the user's message is appended before the
  model is called and nothing removes it when the stream raises. Below, the stream
  raises after one content part; the turn handler returns the error, and the store is
  one message longer than before the turn.
\<close>

theorem failed_turn_commits_user_message:
  "fst (handle_user_input breaking a_client (Some ''hi'') loaded)
     = Some (ResponseError ''connection reset'') \<and>
   store (snd (handle_user_input breaking a_client (Some ''hi'') loaded))
     = store loaded @ [user_message ''hi''] \<and>
   length (store (snd (handle_user_input breaking a_client (Some ''hi'') loaded)))
     \<noteq> length (store loaded)"
  by (simp add: run_defs)

text \<open>
  C2 (amended): when the stream of a turn yields any parts and then raises, the turn
  handler leaves with that error, and the store after the turn is the store before it
  followed by the user's message: no assistant message is committed, and the text
  gathered from the parts is kept nowhere.
\<close>

theorem failed_turn_no_assistant_message:
  assumes "session_messages s = Some ms" and "u \<noteq> []"
    and "ep c ''minimax-m2:cloud'' (ms @ [user_message u]) = map Yield F @ Raise e # rest"
  shows "fst (handle_user_input ep c (Some u) s) = Some e \<and>
         session_messages (snd (handle_user_input ep c (Some u) s))
           = Some (ms @ [user_message u])"
proof -
  from assms(3)
  have "process_thinking_stream (ep c ''minimax-m2:cloud'' (ms @ [user_message u])) = Inl e"
    by (simp add: process_thinking_stream_def consume_raises)
  with assms(1,2) show ?thesis by (rule handle_user_input_failed)
qed

theorem failed_turn_no_assistant_message_witness:
  "fst (handle_user_input breaking a_client (Some ''hi'') loaded)
     = Some (ResponseError ''connection reset'') \<and>
   session_messages (snd (handle_user_input breaking a_client (Some ''hi'') loaded))
     = Some [system_message, user_message ''hi'']"
  using failed_turn_no_assistant_message
    [of loaded "[system_message]" "''hi''" breaking a_client
        "[[''message'' \<mapsto> [''content'' \<mapsto> ''partial'']]]"
        "ResponseError ''connection reset''" "[]"]
  by (simp add: loaded_def breaking_def)

text \<open>
  C3: with no \<open>OLLAMA_API_KEY\<close> in the environment the run stops where the client is
  built, with a \<open>TypeError\<close>: no request reaches the client, so no authentication
  error can come from it, and the session state is left as it was.
\<close>

theorem missing_key_type_error:
  assumes "environ r ''OLLAMA_API_KEY'' = None"
  shows "script_run r s = (Some TypeError, s\<lparr>page := []\<rparr>)"
  using assms by (simp add: script_run_def make_client_def)

theorem missing_key_type_error_witness:
  "script_run keyless_turn loaded = (Some TypeError, loaded) \<and>
   sent (snd (script_run keyless_turn loaded)) = [] \<and>
   script_run keyless_turn fresh = (Some TypeError, fresh)"
  using missing_key_type_error [of keyless_turn loaded]
    missing_key_type_error [of keyless_turn fresh]
  by (simp add: keyless_turn_def loaded_def fresh_def)

lemma handle_user_input_reply:
  assumes "session_messages s = Some ms" and "u \<noteq> []"
  shows "fst (handle_user_input ep c (Some u) s)
           = (case process_thinking_stream (ep c ''minimax-m2:cloud'' (ms @ [user_message u])) of
                Inl e \<Rightarrow> Some e
              | Inr r \<Rightarrow> None)"
    and "session_messages (snd (handle_user_input ep c (Some u) s))
           = Some (ms @ user_message u #
               (case process_thinking_stream (ep c ''minimax-m2:cloud'' (ms @ [user_message u])) of
                  Inl e \<Rightarrow> []
                | Inr (t, a) \<Rightarrow> [assistant_message a t]))"
  using assms
  by (simp_all add: handle_user_input_def get_chat_model_def Let_def
        split: sum.splits prod.splits)

text \<open>
  C8: \<open>display_chat_history\<close> renders the stored messages whose role is not
  \<open>system\<close>, each through \<open>display_message\<close> and in order, so the system message is
  never rendered. The chat model of a turn is called on the whole store, the system
  message with it, followed by the user's message: whether the turn returns or raises,
  and the assistant's message it commits, are those of the stream the endpoint gives
  for exactly that history; the logged request carries the same history.
\<close>

theorem system_message_hidden_but_sent:
  assumes "session_messages s = Some ms" and "u \<noteq> []"
  shows "display_chat_history s
           = (None, s\<lparr>page := page s @
                map display_message (filter (\<lambda>m. role m \<noteq> ''system'') ms)\<rparr>) \<and>
         fst (handle_user_input ep c (Some u) s)
           = (case process_thinking_stream (ep c ''minimax-m2:cloud'' (ms @ [user_message u])) of
                Inl e \<Rightarrow> Some e
              | Inr r \<Rightarrow> None) \<and>
         session_messages (snd (handle_user_input ep c (Some u) s))
           = Some (ms @ user_message u #
               (case process_thinking_stream (ep c ''minimax-m2:cloud'' (ms @ [user_message u])) of
                  Inl e \<Rightarrow> []
                | Inr (t, a) \<Rightarrow> [assistant_message a t])) \<and>
         sent (snd (handle_user_input ep c (Some u) s))
           = sent s @ [\<lparr>req_client = c, req_model = ''minimax-m2:cloud'',
                        req_messages = ms @ [user_message u]\<rparr>]"
  using assms
  by (simp add: handle_user_input_sent handle_user_input_reply
        display_chat_history_def display_all_filter)

theorem system_message_hidden_but_sent_witness:
  "display_chat_history talked
     = (None, talked\<lparr>page :=
          [ChatMessage ''user'' [Markdown ''hi''],
           ChatMessage ''assistant''
             [Expander ''Thinking process'' [Markdown ''hm''], Markdown ''42'']]\<rparr>) \<and>
   fst (handle_user_input echoing a_client (Some ''more'') talked) = None \<and>
   session_messages (snd (handle_user_input echoing a_client (Some ''more'') talked))
     = Some [system_message, user_message ''hi'', assistant_message ''42'' ''hm'',
             user_message ''more'', assistant_message ''systemuserassistantuser'' '''']"
  using system_message_hidden_but_sent
    [of talked "[system_message, user_message ''hi'', assistant_message ''42'' ''hm'']"
        "''more''" echoing a_client]
  by (simp add: talked_def echoing_def system_message_def user_message_def
        assistant_message_def display_message_def display_assistant_message_def
        strip_def isspace_def process_thinking_stream_def get_message_def)

section \<open>Invariants of a session\<close>

lemma thinking_on_assistant_only_append:
  "thinking_on_assistant_only (xs @ ys)
     = (thinking_on_assistant_only xs \<and> thinking_on_assistant_only ys)"
  by (simp add: thinking_on_assistant_only_def)

lemma handle_user_input_thinking:
  assumes "session_messages s = Some ms" and "thinking_on_assistant_only ms"
  shows "thinking_on_assistant_only (store (snd (handle_user_input ep c inp s)))"
  using assms
  by (simp add: handle_user_input_def get_chat_model_def store_def Let_def
        thinking_on_assistant_only_def user_message_def assistant_message_def
        split: option.splits sum.splits prod.splits)

lemma init_session_thinking:
  "thinking_on_assistant_only (store s) \<Longrightarrow> thinking_on_assistant_only (store (init_session s))"
  by (simp add: init_session_def store_def thinking_on_assistant_only_def system_message_def
        split: option.splits)

lemma script_run_thinking:
  assumes "thinking_on_assistant_only (store s)"
  shows "thinking_on_assistant_only (store (snd (script_run r s)))"
proof -
  let ?P = "\<lambda>(e :: error option) m.
              thinking_on_assistant_only (case m of None \<Rightarrow> [] | Some ms \<Rightarrow> ms)"
  have "?P (fst (script_run r s)) (session_messages (snd (script_run r s)))"
  proof (rule script_run_result)
    from assms show "\<And>e. ?P (Some e) (session_messages s)" by (simp add: store_def)
    from init_session_thinking [OF assms]
    show "\<And>e. ?P (Some e) (Some (store (init_session s)))" by simp
    fix c :: client and s2 :: state
    assume "session_messages s2 = Some (store (init_session s))"
    from handle_user_input_thinking [OF this init_session_thinking [OF assms]]
    show "?P (fst (handle_user_input (endpoint r) c (chat_input r) s2))
       (session_messages (snd (handle_user_input (endpoint r) c (chat_input r) s2)))"
      by (simp add: store_def)
  qed
  then show ?thesis by (simp add: store_def)
qed

lemma run_session_thinking:
  "thinking_on_assistant_only (store s) \<Longrightarrow> thinking_on_assistant_only (store (run_session rs s))"
  by (induction rs arbitrary: s) (simp_all add: script_run_thinking)

lemma good_session_store:
  "store (run_session [page_load, good_turn] fresh)
     = [system_message, user_message ''hi'', assistant_message ''42'' ''hm'']"
  by (simp add: run_defs)

text \<open>
  C10: in every store a session can reach from a fresh one, whatever the runs and
  whether they return or raise, a message that carries a thinking field has the role
  \<open>assistant\<close>: the system message and the users' messages carry none.
\<close>

theorem thinking_only_on_assistant:
  "\<forall>m \<in> set (store (run_session rs fresh)). thinking m \<noteq> None \<longrightarrow> role m = ''assistant''"
proof -
  have "thinking_on_assistant_only (store fresh)"
    by (simp add: fresh_def store_def thinking_on_assistant_only_def)
  then have "thinking_on_assistant_only (store (run_session rs fresh))"
    by (rule run_session_thinking)
  then show ?thesis
    by (auto simp: thinking_on_assistant_only_def list_all_iff)
qed

theorem thinking_only_on_assistant_witness:
  "store (run_session [page_load, good_turn] fresh)
     = [system_message, user_message ''hi'', assistant_message ''42'' ''hm''] \<and>
   thinking (last (store (run_session [page_load, good_turn] fresh))) = Some ''hm'' \<and>
   role (last (store (run_session [page_load, good_turn] fresh))) = ''assistant'' \<and>
   thinking (hd (store (run_session [page_load, good_turn] fresh))) = None"
proof -
  let ?ms = "store (run_session [page_load, good_turn] fresh)"
  have eq: "?ms = [system_message, user_message ''hi'', assistant_message ''42'' ''hm'']"
    by (rule good_session_store)
  then have mem: "last ?ms \<in> set ?ms" and th: "thinking (last ?ms) \<noteq> None"
    by (simp_all add: assistant_message_def)
  from thinking_only_on_assistant [of "[page_load, good_turn]"] mem th
  have "role (last ?ms) = ''assistant''" by blast
  with eq show ?thesis by (simp add: assistant_message_def system_message_def)
qed


lemma handle_user_input_returned:
  assumes "session_messages s = Some ms" and "fst (handle_user_input ep c inp s) = None"
  shows "\<exists>ext. session_messages (snd (handle_user_input ep c inp s)) = Some (ms @ ext) \<and>
           map role ext = (if submitted inp then [''user'', ''assistant''] else [])"
  using assms
  by (auto simp: handle_user_input_def get_chat_model_def Let_def submitted_def
        user_message_def assistant_message_def
        split: option.splits sum.splits prod.splits if_splits)

lemma script_run_returned:
  assumes "fst (script_run r s) = None"
  shows "\<exists>ext. session_messages (snd (script_run r s)) = Some (store (init_session s) @ ext) \<and>
           map role ext = (if submitted (chat_input r) then [''user'', ''assistant''] else [])"
proof -
  let ?P = "\<lambda>(e :: error option) m. e = None \<longrightarrow>
     (\<exists>ext. m = Some (store (init_session s) @ ext) \<and>
        map role ext = (if submitted (chat_input r) then [''user'', ''assistant''] else []))"
  have "?P (fst (script_run r s)) (session_messages (snd (script_run r s)))"
  proof (rule script_run_result)
    show "\<And>e. ?P (Some e) (session_messages s)" by simp
    show "\<And>e. ?P (Some e) (Some (store (init_session s)))" by simp
    fix c :: client and s2 :: state
    assume "session_messages s2 = Some (store (init_session s))"
    from handle_user_input_returned [OF this]
    show "?P (fst (handle_user_input (endpoint r) c (chat_input r) s2))
       (session_messages (snd (handle_user_input (endpoint r) c (chat_input r) s2)))"
      by blast
  qed
  with assms show ?thesis by blast
qed

lemma concat_replicate_Suc:
  "xs @ concat (replicate n xs) = concat (replicate (Suc n) xs)"
  by simp

lemma all_returned_roles:
  assumes "all_returned rs s" and "session_messages s = Some ms"
  shows "map role (store (run_session rs s))
           = map role ms @ concat (replicate (turns rs) [''user'', ''assistant''])"
  using assms
proof (induction rs arbitrary: s ms)
  case Nil
  then show ?case by (simp add: turns_def store_def)
next
  case (Cons r rs)
  from Cons.prems(1) have ret: "fst (script_run r s) = None"
    and rest: "all_returned rs (snd (script_run r s))" by simp_all
  from Cons.prems(2) have i: "store (init_session s) = ms"
    by (simp add: init_session_def store_def)
  from script_run_returned [OF ret] i obtain ext
    where s': "session_messages (snd (script_run r s)) = Some (ms @ ext)"
      and ext: "map role ext = (if submitted (chat_input r) then [''user'', ''assistant''] else [])"
    by auto
  from Cons.IH [OF rest s']
  have "map role (store (run_session (r # rs) s))
          = map role ms @ map role ext @ concat (replicate (turns rs) [''user'', ''assistant''])"
    by simp
  with ext show ?case by (simp add: turns_def)
qed

lemma count_roles:
  "count_list (concat (replicate n [''user'', ''assistant''])) ''user'' = n \<and>
   count_list (concat (replicate n [''user'', ''assistant''])) ''assistant'' = n \<and>
   count_list (concat (replicate n [''user'', ''assistant''])) ''system'' = 0"
  by (induction n) simp_all

text \<open>
  C4: a session that starts fresh and in which every run of the script returned (the
  page loads and the turns, all completed) holds the system message first, and after it
  one user message and one assistant message per turn, alternating, the user's first:
  with \<open>N\<close> turns, \<open>N\<close> user messages, \<open>N\<close> assistant messages and one system message.
\<close>

theorem completed_turns_alternate:
  assumes "all_returned (r # rs) fresh"
  shows "hd (store (run_session (r # rs) fresh)) = system_message \<and>
         map role (store (run_session (r # rs) fresh))
           = ''system'' # concat (replicate (turns (r # rs)) [''user'', ''assistant'']) \<and>
         count_list (map role (store (run_session (r # rs) fresh))) ''system'' = 1 \<and>
         count_list (map role (store (run_session (r # rs) fresh))) ''user'' = turns (r # rs) \<and>
         count_list (map role (store (run_session (r # rs) fresh))) ''assistant'' = turns (r # rs)"
proof -
  from assms have ret: "fst (script_run r fresh) = None"
    and rest: "all_returned rs (snd (script_run r fresh))" by simp_all
  have i: "store (init_session fresh) = [system_message]"
    by (simp add: init_session_def store_def fresh_def)
  from script_run_returned [OF ret] i obtain ext
    where s': "session_messages (snd (script_run r fresh)) = Some ([system_message] @ ext)"
      and ext: "map role ext = (if submitted (chat_input r) then [''user'', ''assistant''] else [])"
    by auto
  from all_returned_roles [OF rest s'] ext
  have roles: "map role (store (run_session (r # rs) fresh))
          = ''system'' # concat (replicate (turns (r # rs)) [''user'', ''assistant''])"
    by (simp add: turns_def system_message_def)
  have "prefix (store (snd (script_run r fresh))) (store (run_session rs (snd (script_run r fresh))))"
    by (rule run_session_prefix)
  with s' have "hd (store (run_session (r # rs) fresh)) = system_message"
    by (auto simp: store_def prefix_def)
  with roles count_roles [of "turns (r # rs)"] show ?thesis by simp
qed

theorem completed_turns_alternate_witness:
  "all_returned [page_load, good_turn, page_load, good_turn] fresh \<and>
   turns [page_load, good_turn, page_load, good_turn] = 2 \<and>
   map role (store (run_session [page_load, good_turn, page_load, good_turn] fresh))
     = [''system'', ''user'', ''assistant'', ''user'', ''assistant'']"
proof -
  have ok: "all_returned [page_load, good_turn, page_load, good_turn] fresh"
    by (simp add: run_defs)
  have n: "turns [page_load, good_turn, page_load, good_turn] = 2"
    by (simp add: turns_def submitted_def page_load_def good_turn_def)
  from completed_turns_alternate [OF ok] n ok show ?thesis
    by (simp add: numeral_2_eq_2)
qed

text \<open>A turn that failed leaves its user message behind: the next turn adds another.\<close>

lemma failed_turn_breaks_alternation:
  "map role (store (run_session [page_load, broken_turn, good_turn] fresh))
     = [''system'', ''user'', ''user'', ''assistant'']"
  by (simp add: run_defs system_message_def user_message_def assistant_message_def)

end
